theory Spec2Isabelle
  imports Complex_Main "HOL-Library.Multiset" "HOL-Library.Sublist"
begin

section \<open>JavaScript values used by the recorder code\<close>

text \<open>
  File names and URIs are \<^typ>\<open>string\<close>s (lists of 8-bit characters, so names are taken
  to be ASCII). A JavaScript number is \<open>NaN\<close>, one of the two infinities, or a finite value;
  finite values are kept exact (a rational), so the rounding of a double beyond \<open>2^53\<close> and
  the distinction between \<open>+0\<close> and \<open>-0\<close> are not represented.
\<close>

datatype number = NaN | Infinity | NegInfinity | Num rat

text \<open>A \<open>Date\<close> object is its time value: milliseconds since the epoch, or invalid.\<close>

datatype date = InvalidDate | Date int

subsection \<open>String methods\<close>

text \<open>\<open>s.split(d)\<close> for a one-character separator: always at least one part.\<close>

fun split :: "char \<Rightarrow> string \<Rightarrow> string list" where
  "split d [] = [[]]"
| "split d (c # cs) =
     (if c = d then [] # split d cs
      else (case split d cs of [] \<Rightarrow> [[c]] | p # ps \<Rightarrow> (c # p) # ps))"

text \<open>\<open>s.replace(pat, rep)\<close> with a string pattern: the first occurrence only.\<close>

fun replace :: "string \<Rightarrow> string \<Rightarrow> string \<Rightarrow> string" where
  "replace pat rep [] = (if pat = [] then rep else [])"
| "replace pat rep (c # cs) =
     (if take (length pat) (c # cs) = pat then rep @ drop (length pat) (c # cs)
      else c # replace pat rep cs)"

definition endsWith :: "string \<Rightarrow> string \<Rightarrow> bool" where
  "endsWith s suf = (length suf \<le> length s \<and> drop (length s - length suf) s = suf)"

subsection \<open>Numbers to strings\<close>

definition digit_char :: "nat \<Rightarrow> char" where
  "digit_char d = ''0123456789'' ! d"

text \<open>
  \<open>n.toString()\<close> and \<open>`${n}`\<close> for a non-negative integer below \<open>10^21\<close> (above, JavaScript
  switches to exponent notation; clock readings and durations stay far below).
\<close>

fun toString_nat :: "nat \<Rightarrow> string" where
  "toString_nat n =
     (if n < 10 then [digit_char n] else toString_nat (n div 10) @ [digit_char (n mod 10)])"

declare toString_nat.simps [simp del]

definition toString_int :: "int \<Rightarrow> string" where
  "toString_int i = (if i < 0 then CHR ''-'' # toString_nat (nat (- i)) else toString_nat (nat i))"

text \<open>\<open>Math.round\<close>: to the nearest integer, halves towards \<open>+\<infinity>\<close>.\<close>

definition Math_round :: "rat \<Rightarrow> int" where
  "Math_round q = \<lfloor>q + 1 / 2\<rfloor>"

subsection \<open>Strings to numbers\<close>

definition digit_table :: "(char \<times> nat) list" where
  "digit_table =
     [(CHR ''0'', 0), (CHR ''1'', 1), (CHR ''2'', 2), (CHR ''3'', 3), (CHR ''4'', 4),
      (CHR ''5'', 5), (CHR ''6'', 6), (CHR ''7'', 7), (CHR ''8'', 8), (CHR ''9'', 9),
      (CHR ''a'', 10), (CHR ''b'', 11), (CHR ''c'', 12), (CHR ''d'', 13), (CHR ''e'', 14),
      (CHR ''f'', 15),
      (CHR ''A'', 10), (CHR ''B'', 11), (CHR ''C'', 12), (CHR ''D'', 13), (CHR ''E'', 14),
      (CHR ''F'', 15)]"

definition digit_of :: "char \<Rightarrow> nat option" where
  "digit_of c = map_of digit_table c"

definition is_digit_in :: "nat \<Rightarrow> char \<Rightarrow> bool" where
  "is_digit_in radix c = (case digit_of c of None \<Rightarrow> False | Some v \<Rightarrow> v < radix)"

definition val_in :: "nat \<Rightarrow> string \<Rightarrow> nat" where
  "val_in radix s =
     foldl (\<lambda>a c. radix * a + (case digit_of c of None \<Rightarrow> 0 | Some v \<Rightarrow> v)) 0 s"

text \<open>A non-empty run of digits of the radix, and nothing else.\<close>

definition parse_digits :: "nat \<Rightarrow> string \<Rightarrow> nat option" where
  "parse_digits radix s =
     (if s \<noteq> [] \<and> list_all (is_digit_in radix) s then Some (val_in radix s) else None)"

text \<open>The ASCII white space and line terminators that \<open>Number\<close> and \<open>parseInt\<close> strip.\<close>

definition is_ws :: "char \<Rightarrow> bool" where
  "is_ws c = (c \<in> set [CHR 0x09, CHR 0x0A, CHR 0x0B, CHR 0x0C, CHR 0x0D, CHR 0x20])"

definition trim :: "string \<Rightarrow> string" where
  "trim s = rev (dropWhile is_ws (rev (dropWhile is_ws s)))"

definition is_exp_mark :: "char \<Rightarrow> bool" where
  "is_exp_mark c = (c = CHR ''e'' \<or> c = CHR ''E'')"

text \<open>
  The mantissa of a decimal literal: digits, optionally a point and more digits, with a
  digit on at least one side of the point.
\<close>

definition mantissa :: "string \<Rightarrow> rat option" where
  "mantissa m =
     (let ip = takeWhile (is_digit_in 10) m; r = dropWhile (is_digit_in 10) m
      in case r of
           [] \<Rightarrow> if ip = [] then None else Some (of_nat (val_in 10 ip))
         | c # fp \<Rightarrow>
             if c = CHR ''.'' \<and> list_all (is_digit_in 10) fp \<and> \<not> (ip = [] \<and> fp = [])
             then Some (of_nat (val_in 10 ip) + of_nat (val_in 10 fp) / 10 ^ length fp)
             else None)"

definition exponent :: "string \<Rightarrow> int option" where
  "exponent x =
     (case x of
        [] \<Rightarrow> None
      | c # ds \<Rightarrow>
          if c = CHR ''+'' then map_option int (parse_digits 10 ds)
          else if c = CHR ''-'' then map_option (\<lambda>n. - int n) (parse_digits 10 ds)
          else map_option int (parse_digits 10 (c # ds)))"

definition scale10 :: "rat \<Rightarrow> int \<Rightarrow> rat" where
  "scale10 q e = (if 0 \<le> e then q * 10 ^ nat e else q / 10 ^ nat (- e))"

text \<open>An unsigned decimal literal: \<open>Infinity\<close>, or a mantissa with an optional exponent.\<close>

definition unsigned_decimal :: "string \<Rightarrow> number" where
  "unsigned_decimal s =
     (if s = ''Infinity'' then Infinity
      else
        let m = takeWhile (\<lambda>c. \<not> is_exp_mark c) s; x = dropWhile (\<lambda>c. \<not> is_exp_mark c) s
        in case (mantissa m, case x of [] \<Rightarrow> Some 0 | _ # ds \<Rightarrow> exponent ds) of
             (Some q, Some e) \<Rightarrow> Num (scale10 q e)
           | _ \<Rightarrow> NaN)"

fun negate :: "number \<Rightarrow> number" where
  "negate NaN = NaN"
| "negate Infinity = NegInfinity"
| "negate NegInfinity = Infinity"
| "negate (Num q) = Num (- q)"

definition radix_literal :: "nat \<Rightarrow> string \<Rightarrow> number" where
  "radix_literal radix ds = (case parse_digits radix ds of None \<Rightarrow> NaN | Some n \<Rightarrow> Num (of_nat n))"

text \<open>
  \<open>Number(str)\<close> on a string: white space is trimmed, the empty string is \<open>0\<close>, then a
  hexadecimal, octal or binary literal (no sign) or a signed decimal literal; anything
  else is \<open>NaN\<close>. It never throws.
\<close>

definition Number :: "string \<Rightarrow> number" where
  "Number str =
     (let s = trim str
      in if s = [] then Num 0
         else if take 2 s = ''0x'' \<or> take 2 s = ''0X'' then radix_literal 16 (drop 2 s)
         else if take 2 s = ''0o'' \<or> take 2 s = ''0O'' then radix_literal 8 (drop 2 s)
         else if take 2 s = ''0b'' \<or> take 2 s = ''0B'' then radix_literal 2 (drop 2 s)
         else if take 1 s = ''+'' then unsigned_decimal (drop 1 s)
         else if take 1 s = ''-'' then negate (unsigned_decimal (drop 1 s))
         else unsigned_decimal s)"

text \<open>
  \<open>parseInt(str)\<close> with no radix: leading white space and a sign are skipped, a \<open>0x\<close>
  prefix selects radix 16, and the longest prefix of digits is read; \<open>NaN\<close> when there is
  none.
\<close>

definition parseInt :: "string \<Rightarrow> number" where
  "parseInt str =
     (let s = dropWhile is_ws str;
          neg = (take 1 s = ''-'');
          s1 = (if take 1 s = ''+'' \<or> take 1 s = ''-'' then drop 1 s else s);
          hex = (take 2 s1 = ''0x'' \<or> take 2 s1 = ''0X'');
          radix = (if hex then 16 else 10);
          ds = takeWhile (is_digit_in radix) (if hex then drop 2 s1 else s1)
      in if ds = [] then NaN
         else if neg then Num (- of_nat (val_in radix ds))
         else Num (of_nat (val_in radix ds)))"

subsection \<open>Dates\<close>

text \<open>
  \<open>new Date(v)\<close> for a number \<open>v\<close>: the time value is \<open>v\<close> truncated towards zero, and
  invalid when \<open>v\<close> is not finite or beyond \<open>8.64e15\<close> in absolute value.
\<close>

definition new_Date :: "number \<Rightarrow> date" where
  "new_Date v =
     (case v of
        Num q \<Rightarrow>
          if \<bar>q\<bar> \<le> 8640000000000000 then Date (if 0 \<le> q then \<lfloor>q\<rfloor> else \<lceil>q\<rceil>)
          else InvalidDate
      | _ \<Rightarrow> InvalidDate)"

fun getTime :: "date \<Rightarrow> number" where
  "getTime InvalidDate = NaN"
| "getTime (Date t) = Num (of_int t)"

text \<open>Subtraction of JavaScript numbers.\<close>

fun minus_number :: "number \<Rightarrow> number \<Rightarrow> number" where
  "minus_number (Num a) (Num b) = Num (a - b)"
| "minus_number NaN _ = NaN"
| "minus_number _ NaN = NaN"
| "minus_number Infinity Infinity = NaN"
| "minus_number NegInfinity NegInfinity = NaN"
| "minus_number Infinity _ = Infinity"
| "minus_number NegInfinity _ = NegInfinity"
| "minus_number (Num a) Infinity = NegInfinity"
| "minus_number (Num a) NegInfinity = Infinity"

subsection \<open>Sorting with a comparison function\<close>

text \<open>
  \<open>xs.sort(cmp)\<close>: a stable sort in which \<open>a\<close> moves behind \<open>b\<close> exactly when \<open>cmp(a, b)\<close> is
  positive; a \<open>NaN\<close> result counts as \<open>0\<close>. For a comparison function that is not
  consistent (it returns \<open>NaN\<close> for some pairs) the language leaves the order to the
  engine; the insertion order below is what a stable insertion sort produces.
\<close>

fun positive :: "number \<Rightarrow> bool" where
  "positive (Num q) = (0 < q)"
| "positive Infinity = True"
| "positive NegInfinity = False"
| "positive NaN = False"

fun insort_cmp :: "('a \<Rightarrow> 'a \<Rightarrow> number) \<Rightarrow> 'a \<Rightarrow> 'a list \<Rightarrow> 'a list" where
  "insort_cmp cmp x [] = [x]"
| "insort_cmp cmp x (y # ys) =
     (if positive (cmp x y) then y # insort_cmp cmp x ys else x # y # ys)"

definition sort_cmp :: "('a \<Rightarrow> 'a \<Rightarrow> number) \<Rightarrow> 'a list \<Rightarrow> 'a list" where
  "sort_cmp cmp xs = foldr (insort_cmp cmp) xs []"

text \<open>
  What "most recent first" means for a list of dates: every date is compared (as time
  values, so with no invalid date on either side) not earlier than each date after it.
\<close>

fun later_or_equal :: "date \<Rightarrow> date \<Rightarrow> bool" where
  "later_or_equal (Date a) (Date b) = (b \<le> a)"
| "later_or_equal InvalidDate _ = False"
| "later_or_equal _ InvalidDate = False"

fun descending :: "date list \<Rightarrow> bool" where
  "descending [] = True"
| "descending (d # ds) = (list_all (later_or_equal d) ds \<and> descending ds)"

text \<open>
  The comparison function of both registries,
  \<open>(a, b) => b.createdAt.getTime() - a.createdAt.getTime()\<close>, over the field \<open>key\<close>.
\<close>

definition newest_first :: "('a \<Rightarrow> date) \<Rightarrow> 'a \<Rightarrow> 'a \<Rightarrow> number" where
  "newest_first key a b = minus_number (getTime (key b)) (getTime (key a))"

section \<open>The platform: file system, clock, audio devices\<close>

text \<open>
  Every call into the platform (expo-av, expo-file-system) is a step on a \<open>world\<close>: the
  file system (an association list from URI to size in bytes; a directory is an entry
  too), the answer of the permission prompt, the recording the capture device hands out,
  the clock, the sounds currently loaded, and the \<open>trace\<close> of everything done so far
  (platform calls and console output, oldest first). Any platform call may throw:
  \<open>faults\<close> says which do, and with which message.
\<close>

record recording_handle =
  getURI :: "string option"
  durationMillis :: number

datatype call =
    RequestPermissions
  | SetAudioMode
  | GetInfo string
  | MakeDirectory string
  | ReadDirectory string
  | Copy string string
  | Delete string
  | CreateRecording
  | StopAndUnload
  | GetStatus
  | CreateSound string
  | PlaySound nat
  | StopSound nat
  | UnloadSound nat

datatype level = Log | Warn | Error

datatype event = Call call | Console level string

record world =
  documentDirectory :: string
  fs :: "(string \<times> nat) list"
  mic_granted :: bool
  capture :: recording_handle
  clock :: "nat \<Rightarrow> nat"
  reads :: nat
  next_sound :: nat
  loaded :: "nat list"
  faults :: "call \<Rightarrow> string option"
  trace :: "event list"

subsection \<open>Asynchronous steps that may throw\<close>

datatype 'a res = Threw string | Ret 'a

type_synonym ('s, 'a) async = "'s \<Rightarrow> 'a res \<times> 's"

definition ret :: "'a \<Rightarrow> ('s, 'a) async" where
  "ret a s = (Ret a, s)"

definition throw :: "string \<Rightarrow> ('s, 'a) async" where
  "throw e s = (Threw e, s)"

text \<open>\<open>await m k\<close>: run \<open>m\<close>; if it throws, so does the whole; otherwise go on with \<open>k\<close>.\<close>

definition await :: "('s, 'a) async \<Rightarrow> ('a \<Rightarrow> ('s, 'b) async) \<Rightarrow> ('s, 'b) async" where
  "await m k s = (case m s of (Threw e, s1) \<Rightarrow> (Threw e, s1) | (Ret a, s1) \<Rightarrow> k a s1)"

text \<open>A state change that cannot throw (an assignment, a \<open>setState\<close>, console output).\<close>

definition modify :: "('s \<Rightarrow> 's) \<Rightarrow> ('s, unit) async" where
  "modify f s = (Ret (), f s)"

text \<open>
  \<open>try { body } catch (error) { handler }\<close> where the handler itself cannot throw: the
  changes the body made before it threw are kept.
\<close>

definition try_catch :: "('s, 'a) async \<Rightarrow> (string \<Rightarrow> 's \<Rightarrow> 'a \<times> 's) \<Rightarrow> 's \<Rightarrow> 'a \<times> 's" where
  "try_catch body handler s =
     (case body s of (Threw e, s1) \<Rightarrow> handler e s1 | (Ret a, s1) \<Rightarrow> (a, s1))"

text \<open>Calling a function that cannot throw from inside a \<open>try\<close> block.\<close>

definition call_total :: "('s \<Rightarrow> 'a \<times> 's) \<Rightarrow> ('s, 'a) async" where
  "call_total f s = (case f s of (a, s1) \<Rightarrow> (Ret a, s1))"

subsection \<open>Console and clock\<close>

text \<open>
  Console output is recorded with its level and the literal text of its first argument;
  the interpolated values are left out.
\<close>

definition console :: "level \<Rightarrow> string \<Rightarrow> 'a world_scheme \<Rightarrow> 'a world_scheme" where
  "console l msg w = w\<lparr>trace := trace w @ [Console l msg]\<rparr>"

text \<open>\<open>Date.now()\<close>: the next reading of the clock; it cannot throw.\<close>

definition Date_now :: "'a world_scheme \<Rightarrow> nat \<times> 'a world_scheme" where
  "Date_now w = (clock w (reads w), w\<lparr>reads := Suc (reads w)\<rparr>)"

subsection \<open>Platform calls\<close>

text \<open>
  A platform call is recorded in the trace, throws when \<open>faults\<close> says so, and otherwise
  has its effect (which may itself throw, as copying a missing file does).
\<close>

definition platform :: "call \<Rightarrow> ('a world_scheme, 'b) async \<Rightarrow> ('a world_scheme, 'b) async" where
  "platform c effect w =
     (let w1 = w\<lparr>trace := trace w @ [Call c]\<rparr>
      in case faults w c of Some msg \<Rightarrow> (Threw msg, w1) | None \<Rightarrow> effect w1)"

definition requestPermissionsAsync :: "('a world_scheme, bool) async" where
  "requestPermissionsAsync = platform RequestPermissions (\<lambda>w. ret (mic_granted w) w)"

definition setAudioModeAsync :: "('a world_scheme, unit) async" where
  "setAudioModeAsync = platform SetAudioMode (ret ())"

text \<open>\<open>getInfoAsync(uri)\<close>: \<open>None\<close> when nothing exists there, otherwise the size.\<close>

definition getInfoAsync :: "string \<Rightarrow> ('a world_scheme, nat option) async" where
  "getInfoAsync u = platform (GetInfo u) (\<lambda>w. ret (map_of (fs w) u) w)"

text \<open>\<open>makeDirectoryAsync(dir, {intermediates: true})\<close>: no error when it exists.\<close>

definition makeDirectoryAsync :: "string \<Rightarrow> ('a world_scheme, unit) async" where
  "makeDirectoryAsync d =
     platform (MakeDirectory d)
       (modify (\<lambda>w. if map_of (fs w) d = None then w\<lparr>fs := fs w @ [(d, 0)]\<rparr> else w))"

text \<open>
  \<open>readDirectoryAsync(dir)\<close>: the names of the files directly inside \<open>dir\<close>, in the order
  the file system holds them; it throws when \<open>dir\<close> does not exist.
\<close>

definition children :: "string \<Rightarrow> (string \<times> nat) list \<Rightarrow> string list" where
  "children d entries =
     map (\<lambda>(p, n). drop (length d) p)
       (filter (\<lambda>(p, n). take (length d) p = d \<and> length d < length p
                  \<and> CHR ''/'' \<notin> set (drop (length d) p)) entries)"

definition readDirectoryAsync :: "string \<Rightarrow> ('a world_scheme, string list) async" where
  "readDirectoryAsync d =
     platform (ReadDirectory d)
       (\<lambda>w. if map_of (fs w) d = None then throw ''Directory does not exist'' w
            else ret (children d (fs w)) w)"

text \<open>\<open>copyAsync({from, to})\<close>: throws when the source is missing, overwrites the target.\<close>

definition copyAsync :: "string \<Rightarrow> string \<Rightarrow> ('a world_scheme, unit) async" where
  "copyAsync src dst =
     platform (Copy src dst)
       (\<lambda>w. case map_of (fs w) src of
               None \<Rightarrow> throw ''Source does not exist'' w
             | Some n \<Rightarrow> ret () (w\<lparr>fs := filter (\<lambda>(p, k). p \<noteq> dst) (fs w) @ [(dst, n)]\<rparr>))"

text \<open>\<open>deleteAsync(uri)\<close> (not idempotent): throws when nothing exists at \<open>uri\<close>.\<close>

definition deleteAsync :: "string \<Rightarrow> ('a world_scheme, unit) async" where
  "deleteAsync u =
     platform (Delete u)
       (\<lambda>w. if map_of (fs w) u = None then throw ''File does not exist'' w
            else ret () (w\<lparr>fs := filter (\<lambda>(p, k). p \<noteq> u) (fs w)\<rparr>))"

definition createRecordingAsync :: "('a world_scheme, recording_handle) async" where
  "createRecordingAsync = platform CreateRecording (\<lambda>w. ret (capture w) w)"

definition stopAndUnloadAsync :: "recording_handle \<Rightarrow> ('a world_scheme, unit) async" where
  "stopAndUnloadAsync r = platform StopAndUnload (ret ())"

definition getStatusAsync :: "recording_handle \<Rightarrow> ('a world_scheme, number) async" where
  "getStatusAsync r = platform GetStatus (ret (durationMillis r))"

text \<open>\<open>Audio.Sound.createAsync({uri}, ...)\<close>: a fresh handle, loaded.\<close>

definition createSoundAsync :: "string \<Rightarrow> ('a world_scheme, nat) async" where
  "createSoundAsync u =
     platform (CreateSound u)
       (\<lambda>w. ret (next_sound w)
              (w\<lparr>next_sound := Suc (next_sound w), loaded := next_sound w # loaded w\<rparr>))"

definition playAsync :: "nat \<Rightarrow> ('a world_scheme, unit) async" where
  "playAsync h = platform (PlaySound h) (ret ())"

definition stopAsync :: "nat \<Rightarrow> ('a world_scheme, unit) async" where
  "stopAsync h = platform (StopSound h) (ret ())"

definition unloadAsync :: "nat \<Rightarrow> ('a world_scheme, unit) async" where
  "unloadAsync h = platform (UnloadSound h) (modify (\<lambda>w. w\<lparr>loaded := removeAll h (loaded w)\<rparr>))"

text \<open>
  \<open>await Promise.all(xs.map(f))\<close>, taken one element after the other: the callbacks are
  started together in the source, and how their steps interleave is not represented.
\<close>

fun each :: "('x \<Rightarrow> ('s, 'y) async) \<Rightarrow> 'x list \<Rightarrow> ('s, 'y list) async" where
  "each f [] s = ret [] s"
| "each f (x # xs) s = await (f x) (\<lambda>y. await (each f xs) (\<lambda>ys. ret (y # ys))) s"

section \<open>The service: \<open>src/services/AudioService.ts\<close>\<close>

record AudioFile =
  af_id :: string
  af_uri :: string
  filename :: string
  af_duration :: number
  af_createdAt :: date

record service = world +
  this_recording :: "recording_handle option"
  this_sound :: "nat option"

definition recordingsDirectory :: "'a world_scheme \<Rightarrow> string" where
  "recordingsDirectory w = documentDirectory w @ ''recordings/''"

definition init :: "('a world_scheme, unit) async" where
  "init w =
     await (getInfoAsync (recordingsDirectory w))
       (\<lambda>dirInfo. if dirInfo = None then makeDirectoryAsync (recordingsDirectory w) else ret ()) w"



text \<open>\<open>status.durationMillis || 0\<close>: \<open>0\<close> and \<open>NaN\<close> are falsy.\<close>

definition or_zero :: "number \<Rightarrow> number" where
  "or_zero v = (if v = NaN then Num 0 else v)"

definition AudioService_stopRecording ::
  "'a service_scheme \<Rightarrow> AudioFile option \<times> 'a service_scheme" where
  "AudioService_stopRecording =
     try_catch
       (\<lambda>s0. case this_recording s0 of
          None \<Rightarrow> ret None s0
        | Some recording \<Rightarrow>
            await (stopAndUnloadAsync recording) (\<lambda>_.
            await (getStatusAsync recording) (\<lambda>status.
            await (modify (\<lambda>s. s\<lparr>this_recording := None\<rparr>)) (\<lambda>_.
            case getURI recording of
              None \<Rightarrow> ret None
            | Some uri \<Rightarrow>
                await (getInfoAsync uri) (\<lambda>fileInfo.
                if fileInfo = None \<or> fileInfo = Some 0
                then await (modify (console Error ''Recording file is missing or empty:''))
                       (\<lambda>_. ret None)
                else
                  await (call_total Date_now) (\<lambda>timestamp. (\<lambda>s.
                  let id = toString_nat timestamp;
                      filename = ''recording_'' @ toString_nat timestamp @ ''.wav'';
                      destinationUri = recordingsDirectory s @ filename
                  in
                    await (copyAsync uri destinationUri) (\<lambda>_.
                    await (getInfoAsync destinationUri) (\<lambda>destFileInfo.
                    if destFileInfo = None
                    then await (modify (console Error ''Failed to save recording:''))
                           (\<lambda>_. ret None)
                    else
                      await (modify (console Log
                               ''Recording saved: ${filename}, size: ${destFileInfo.size} bytes''))
                        (\<lambda>_.
                      await (call_total Date_now) (\<lambda>now.
                      ret (Some \<lparr>af_id = id, af_uri = destinationUri, filename = filename,
                                 af_duration = or_zero status,
                                 af_createdAt = new_Date (Num (of_nat now))\<rparr>))))) s)))))) s0)
       (\<lambda>error s. (None, console Error ''Failed to stop recording:'' s))"

text \<open>
  The callback of \<open>getRecordings\<close> for one file name:
  \<open>filename.split('_')[1]?.split('.')[0] || Date.now().toString()\<close> is the second segment up
  to its first point, or the clock when that is missing or empty.
\<close>

definition AudioService_toAudioFile :: "string \<Rightarrow> ('a world_scheme, AudioFile) async" where
  "AudioService_toAudioFile name s0 =
     (let fileUri = recordingsDirectory s0 @ name
      in await (getInfoAsync fileUri) (\<lambda>fileInfo.
         let stem = (case split CHR ''_'' name of
                       p0 # p1 # rest \<Rightarrow> (case split CHR ''.'' p1 of [] \<Rightarrow> [] | x # xs \<Rightarrow> x)
                     | _ \<Rightarrow> [])
         in await (if stem = [] then await (call_total Date_now) (\<lambda>t. ret (toString_nat t))
                   else ret stem) (\<lambda>id.
            ret \<lparr>af_id = id, af_uri = fileUri, filename = name, af_duration = Num 0,
                 af_createdAt = new_Date (parseInt id)\<rparr>)) s0)"

definition AudioService_getRecordings ::
  "'a service_scheme \<Rightarrow> AudioFile list \<times> 'a service_scheme" where
  "AudioService_getRecordings =
     try_catch
       (await init (\<lambda>_. (\<lambda>s.
        await (readDirectoryAsync (recordingsDirectory s)) (\<lambda>files.
        let wavFiles = filter (\<lambda>file. endsWith file ''.wav'') files
        in if length wavFiles = 0 then ret []
           else await (each AudioService_toAudioFile wavFiles) (\<lambda>recordings.
                ret (sort_cmp (newest_first af_createdAt) recordings))) s)))
       (\<lambda>error s. ([], console Error ''Failed to get recordings:'' s))"

definition AudioService_playRecording ::
  "string \<Rightarrow> 'a service_scheme \<Rightarrow> bool \<times> 'a service_scheme" where
  "AudioService_playRecording uri =
     try_catch
       (\<lambda>s0.
          await (case this_sound s0 of
                   None \<Rightarrow> ret ()
                 | Some h \<Rightarrow> await (unloadAsync h) (\<lambda>_. modify (\<lambda>s. s\<lparr>this_sound := None\<rparr>)))
            (\<lambda>_.
          await (getInfoAsync uri) (\<lambda>fileInfo.
          if fileInfo = None
          then await (modify (console Error ''Audio file not found:'')) (\<lambda>_. ret False)
          else
            await setAudioModeAsync (\<lambda>_.
            await (createSoundAsync uri) (\<lambda>sound.
            await (modify (\<lambda>s. s\<lparr>this_sound := Some sound\<rparr>)) (\<lambda>_.
            await (playAsync sound) (\<lambda>_.
            ret True)))))) s0)
       (\<lambda>error s. (False, console Error ''Failed to play recording:'' s))"

definition AudioService_stopPlayback :: "'a service_scheme \<Rightarrow> 'a service_scheme" where
  "AudioService_stopPlayback s0 =
     (case this_sound s0 of
        None \<Rightarrow> s0
      | Some h \<Rightarrow>
          snd (try_catch
                 (await (stopAsync h) (\<lambda>_.
                  await (unloadAsync h) (\<lambda>_.
                  modify (\<lambda>s. s\<lparr>this_sound := None\<rparr>))))
                 (\<lambda>error s. ((), console Error ''Error stopping playback:'' s)) s0))"


section \<open>The recordings screen: \<open>src/app/(tabs)/recordings.tsx\<close>\<close>

text \<open>
  The screen holds the list it shows and which clip it believes is playing, and drives
  the service. Component state is written with \<open>setState\<close>; a handler reads the values of
  the render it was created in (its argument) and writes the next ones.
\<close>

record screen = service +
  scr_recordings :: "AudioFile list"
  scr_playingId :: "string option"
  scr_isPlaying :: bool
  scr_error :: "string option"


text \<open>
  \<open>handlePlayPause\<close>; its \<open>catch\<close> is never entered, since \<open>playRecording\<close> catches
  everything itself.
\<close>

definition Screen_handlePlayPause :: "AudioFile \<Rightarrow> 'a screen_scheme \<Rightarrow> 'a screen_scheme" where
  "Screen_handlePlayPause item s0 =
     (if scr_playingId s0 = Some (af_id item) \<and> scr_isPlaying s0
      then (AudioService_stopPlayback s0)\<lparr>scr_isPlaying := False\<rparr>
      else (case AudioService_playRecording (af_uri item) (s0\<lparr>scr_error := None\<rparr>) of
              (success, s1) \<Rightarrow>
                if success then s1\<lparr>scr_playingId := Some (af_id item), scr_isPlaying := True\<rparr>
                else s1))"


section \<open>The recorder hook: \<open>src/hooks/useAudioRecorder.ts\<close>\<close>

record Recording =
  clip_id :: string
  uri :: string
  fileName :: string
  duration :: number
  createdAt :: date

record recorder = world +
  recording :: "recording_handle option"
  recordings :: "Recording list"
  isRecording :: bool
  permissionResponse :: "bool option"
  recordingDuration :: rat
  startTime :: "nat option"

subsection \<open>The file name codec\<close>

text \<open>
  The name \<open>stopRecording\<close> builds:
  \<open>`${id}_${timestamp}_${Math.round(duration)}.wav`\<close>.
\<close>

definition encode_fileName :: "string \<Rightarrow> nat \<Rightarrow> rat \<Rightarrow> string" where
  "encode_fileName ident timestamp dur =
     ident @ ''_'' @ toString_nat timestamp @ ''_'' @ toString_int (Math_round dur) @ ''.wav''"

text \<open>
  The \<open>try\<close> block of \<open>loadRecordings\<close> on one name, giving \<open>(id, timestamp, duration)\<close>:
  \<open>parts[1].replace\<close> throws a \<open>TypeError\<close> when there is no second part, and nothing else
  in the block can throw.
\<close>

definition parse_fileName :: "string \<Rightarrow> (string \<times> number \<times> number) res" where
  "parse_fileName name =
     (case split CHR ''_'' name of
        p0 # p1 # rest \<Rightarrow>
          Ret (p0, Number (replace ''.wav'' [] p1),
               (case rest of [] \<Rightarrow> Num 0 | p2 # ps \<Rightarrow> Number p2))
      | _ \<Rightarrow> Threw ''TypeError: Cannot read properties of undefined (reading replace)'')"

text \<open>The block with its \<open>catch\<close>: the fallback values, with the clock as the timestamp.\<close>

definition decode_fileName ::
  "string \<Rightarrow> 'a world_scheme \<Rightarrow> (string \<times> number \<times> number) \<times> 'a world_scheme" where
  "decode_fileName name =
     try_catch (\<lambda>s. (parse_fileName name, s))
       (\<lambda>e s. case Date_now (console Warn ''Error parsing filename:'' s) of
                 (t, s1) \<Rightarrow> ((name, Num (of_nat t), Num 0), s1))"

subsection \<open>Loading, starting, stopping, deleting\<close>

definition Recorder_toRecording :: "string \<Rightarrow> string \<Rightarrow> ('a world_scheme, Recording) async" where
  "Recorder_toRecording recordingsDir name =
     await (getInfoAsync (recordingsDir @ name)) (\<lambda>fileInfo.
     await (call_total (decode_fileName name)) (\<lambda>(id, timestamp, dur).
     ret \<lparr>clip_id = id, uri = recordingsDir @ name, fileName = name, duration = dur,
          createdAt = new_Date timestamp\<rparr>))"

definition Recorder_loadRecordings :: "'a recorder_scheme \<Rightarrow> 'a recorder_scheme" where
  "Recorder_loadRecordings s0 =
     snd (try_catch
            (\<lambda>s. let recordingsDir = documentDirectory s @ ''recordings/''
                 in await (getInfoAsync recordingsDir) (\<lambda>dirInfo.
                    if dirInfo = None
                    then await (makeDirectoryAsync recordingsDir) (\<lambda>_.
                         modify (\<lambda>s. s\<lparr>recordings := []\<rparr>))
                    else
                      await (readDirectoryAsync recordingsDir) (\<lambda>files.
                      let wavFiles = filter (\<lambda>file. endsWith file ''.wav'') files
                      in await (each (Recorder_toRecording recordingsDir) wavFiles)
                           (\<lambda>recordingFiles.
                         await (modify (console Log ''Found ${recordingFiles.length} recordings''))
                           (\<lambda>_.
                         modify (\<lambda>s. s\<lparr>recordings :=
                                         sort_cmp (newest_first createdAt) recordingFiles\<rparr>))))) s)
            (\<lambda>error s. ((), console Error ''Failed to load recordings:'' s)) s0)"


definition Recorder_stopRecording :: "'a recorder_scheme \<Rightarrow> 'a recorder_scheme" where
  "Recorder_stopRecording s0 =
     (case recording s0 of
        None \<Rightarrow> s0
      | Some rec \<Rightarrow>
          snd (try_catch
            (await (modify (console Log ''Stopping recording...'')) (\<lambda>_.
             await (modify (\<lambda>s. s\<lparr>isRecording := False\<rparr>)) (\<lambda>_.
             await (modify (\<lambda>s. s\<lparr>startTime := None\<rparr>)) (\<lambda>_.
             await (stopAndUnloadAsync rec) (\<lambda>_.
             case getURI rec of
               None \<Rightarrow> modify (console Error ''No recording URI available'')
             | Some tmp \<Rightarrow>
                 await (modify (console Log ''Recording stopped, URI: ${uri}'')) (\<lambda>_.
                 await (getInfoAsync tmp) (\<lambda>fileInfo.
                 if fileInfo = None \<or> fileInfo = Some 0
                 then modify (console Error ''Recording file is missing or empty:'')
                 else
                   await (modify (console Log ''Recording file size: ${fileInfo.size} bytes''))
                     (\<lambda>_.
                   await (call_total Date_now) (\<lambda>id_now.
                   await (call_total Date_now) (\<lambda>timestamp. (\<lambda>s.
                   let fileName = encode_fileName (toString_nat id_now) timestamp
                                    (recordingDuration s0);
                       recordingsDir = documentDirectory s @ ''recordings/''
                   in
                     await (getInfoAsync recordingsDir) (\<lambda>dirInfo.
                     await (if dirInfo = None then makeDirectoryAsync recordingsDir else ret ())
                       (\<lambda>_.
                     let destinationUri = recordingsDir @ fileName
                     in
                       await (modify (console Log ''Copying recording to: ${destinationUri}''))
                         (\<lambda>_.
                       await (copyAsync tmp destinationUri) (\<lambda>_.
                       await (getInfoAsync destinationUri) (\<lambda>destFileInfo.
                       await (if destFileInfo \<noteq> None
                              then modify (console Log
                                ''File saved successfully, size: ${destFileInfo.size} bytes'')
                              else ret ()) (\<lambda>_.
                       await (modify Recorder_loadRecordings) (\<lambda>_.
                       modify (\<lambda>s. s\<lparr>recording := None\<rparr>)))))))) s)))))))))))
            (\<lambda>error s. ((), (console Error ''Failed to stop recording:'' s)
                                \<lparr>isRecording := False, recording := None\<rparr>)) s0))"


section \<open>The player hook: \<open>src/hooks/useAudioPlayer.ts\<close>\<close>

record player = world +
  sound :: "nat option"
  playingId :: "string option"
  isPlaying :: bool
  position :: number
  playback_duration :: number
  error :: "string option"

definition configureAudioSession :: "'a world_scheme \<Rightarrow> 'a world_scheme" where
  "configureAudioSession s0 =
     snd (try_catch setAudioModeAsync
            (\<lambda>err s. ((), console Error ''Failed to configure audio mode:'' s)) s0)"

text \<open>
  \<open>playSound\<close>. The first \<open>try\<close> block yields \<open>True\<close> when it returned from the function.
  \<open>sound.unloadAsync()\<close> stands outside every \<open>try\<close>, so \<open>playSound\<close> itself can throw.
\<close>

definition Player_playSound :: "Recording \<Rightarrow> ('a player_scheme, unit) async" where
  "Player_playSound rec s0 =
     (case try_catch
             (await (getInfoAsync (uri rec)) (\<lambda>fileInfo.
                if fileInfo = None \<or> fileInfo = Some 0
                then await (modify (\<lambda>s. s\<lparr>error :=
                              Some (''File doesn't exist or is empty: '' @ uri rec)\<rparr>))
                       (\<lambda>_. ret True)
                else await (modify (console Log
                              ''Playing file: ${recording.uri}, Size: ${fileInfo.size} bytes''))
                       (\<lambda>_. ret False)))
             (\<lambda>err s. (False, console Error ''Error checking file:'' s))
             (s0\<lparr>error := None\<rparr>) of
        (True, s1) \<Rightarrow> (Ret (), s1)
      | (False, s1) \<Rightarrow>
          await (modify configureAudioSession) (\<lambda>_.
          await (case sound s0 of None \<Rightarrow> ret () | Some h \<Rightarrow> unloadAsync h) (\<lambda>_.
          call_total (try_catch
            (await (modify (console Log ''Creating sound object...'')) (\<lambda>_.
             await (createSoundAsync (uri rec)) (\<lambda>newSound.
             await (modify (\<lambda>s. s\<lparr>sound := Some newSound, playingId := Some (clip_id rec)\<rparr>))
               (\<lambda>_.
             await (modify (console Log ''Playback started'')) (\<lambda>_.
             modify (\<lambda>s. s\<lparr>isPlaying := True\<rparr>))))))
            (\<lambda>error s. ((), (console Error ''Error playing sound:'' s)
                                \<lparr>error := Some (''Playback error: '' @ error),
                                 isPlaying := False, playingId := None\<rparr>))))) s1)"

definition Player_stopSound :: "'a player_scheme \<Rightarrow> 'a player_scheme" where
  "Player_stopSound s0 =
     (case sound s0 of
        None \<Rightarrow> s0
      | Some h \<Rightarrow>
          snd (try_catch
                 (await (stopAsync h) (\<lambda>_.
                  modify (\<lambda>s. s\<lparr>isPlaying := False, playingId := None, position := Num 0\<rparr>)))
                 (\<lambda>error s. ((), console Error ''Error stopping sound:'' s)) s0))"

section \<open>Example states\<close>

text \<open>
  Concrete states on which the theorems below are instantiated: a document directory
  \<open>doc/\<close>, a clock that reads 5, 6, 7, ..., no platform call throwing, and an empty
  trace.
\<close>

definition example_handle :: recording_handle where
  "example_handle = \<lparr>getURI = Some ''tmp/rec.wav'', durationMillis = Num 2500\<rparr>"

definition example_service ::
  "(string \<times> nat) list \<Rightarrow> recording_handle option \<Rightarrow> nat option \<Rightarrow> service" where
  "example_service files r h =
     \<lparr>documentDirectory = ''doc/'', fs = files, mic_granted = False, capture = example_handle,
      clock = (\<lambda>n. 5 + n), reads = 0, next_sound = 1,
      loaded = (case h of None \<Rightarrow> [] | Some k \<Rightarrow> [k]),
      faults = (\<lambda>c. None), trace = [], this_recording = r, this_sound = h\<rparr>"

definition example_screen ::
  "(string \<times> nat) list \<Rightarrow> nat option \<Rightarrow> AudioFile list \<Rightarrow> string option \<Rightarrow> screen" where
  "example_screen files h clips playing =
     \<lparr>documentDirectory = ''doc/'', fs = files, mic_granted = False, capture = example_handle,
      clock = (\<lambda>n. 5 + n), reads = 0, next_sound = 1,
      loaded = (case h of None \<Rightarrow> [] | Some k \<Rightarrow> [k]),
      faults = (\<lambda>c. None), trace = [], this_recording = None, this_sound = h,
      scr_recordings = clips, scr_playingId = playing, scr_isPlaying = (playing \<noteq> None),
      scr_error = None\<rparr>"

definition example_recorder ::
  "(string \<times> nat) list \<Rightarrow> recording_handle option \<Rightarrow> bool option \<Rightarrow> recorder" where
  "example_recorder files r perm =
     \<lparr>documentDirectory = ''doc/'', fs = files, mic_granted = False, capture = example_handle,
      clock = (\<lambda>n. 5 + n), reads = 0, next_sound = 1, loaded = [],
      faults = (\<lambda>c. None), trace = [], recording = r, recordings = [],
      isRecording = (r \<noteq> None), permissionResponse = perm, recordingDuration = 2500,
      startTime = (case r of None \<Rightarrow> None | Some x \<Rightarrow> Some 1)\<rparr>"

definition example_player :: "(string \<times> nat) list \<Rightarrow> nat option \<Rightarrow> player" where
  "example_player files h =
     \<lparr>documentDirectory = ''doc/'', fs = files, mic_granted = False, capture = example_handle,
      clock = (\<lambda>n. 5 + n), reads = 0, next_sound = 1,
      loaded = (case h of None \<Rightarrow> [] | Some k \<Rightarrow> [k]),
      faults = (\<lambda>c. None), trace = [], sound = h,
      playingId = (case h of None \<Rightarrow> None | Some k \<Rightarrow> Some ''5''),
      isPlaying = (h \<noteq> None), position = Num 0, playback_duration = Num 0, error = None\<rparr>"

text \<open>What an operation added to the trace: the events of \<open>s1\<close> after those of \<open>s\<close>.\<close>

definition new_events :: "'a world_scheme \<Rightarrow> 'b world_scheme \<Rightarrow> event list" where
  "new_events s s1 = drop (length (trace s)) (trace s1)"

text \<open>Two recordings directories: one with a name whose timestamp is not a number, one without.\<close>

definition example_directory :: "(string \<times> nat) list" where
  "example_directory =
     [(''doc/recordings/'', 0), (''doc/recordings/a_5.wav'', 3),
      (''doc/recordings/x_y.wav'', 3), (''doc/recordings/b_9.wav'', 3)]"

definition valid_directory :: "(string \<times> nat) list" where
  "valid_directory =
     [(''doc/recordings/'', 0), (''doc/recordings/a_5.wav'', 3),
      (''doc/recordings/b_9.wav'', 3), (''doc/recordings/c_5.wav'', 3)]"





section \<open>Unfolding rules\<close>

lemmas async_defs = ret_def throw_def await_def modify_def try_catch_def call_total_def
  platform_def console_def Date_now_def Let_def

lemmas platform_defs = requestPermissionsAsync_def setAudioModeAsync_def getInfoAsync_def
  makeDirectoryAsync_def readDirectoryAsync_def copyAsync_def deleteAsync_def
  createRecordingAsync_def stopAndUnloadAsync_def getStatusAsync_def createSoundAsync_def
  playAsync_def stopAsync_def unloadAsync_def

lemmas number_defs = Number_def trim_def is_ws_def unsigned_decimal_def is_exp_mark_def
  mantissa_def exponent_def parse_digits_def is_digit_in_def digit_of_def digit_table_def
  val_in_def scale10_def radix_literal_def

lemma Math_round_of_int: "Math_round (of_int n) = n"
  unfolding Math_round_def by (simp add: floor_eq_iff)

section \<open>Sorting with the comparison function\<close>

lemma positive_newest_first:
  "positive (newest_first key x y) = (\<exists>a b. key x = Date a \<and> key y = Date b \<and> a < b)"
  by (cases "key x"; cases "key y") (simp_all add: newest_first_def)

lemma set_insort_cmp: "set (insort_cmp cmp x ys) = insert x (set ys)"
  by (induction ys) auto

lemma mset_insort_cmp: "mset (insort_cmp cmp x ys) = add_mset x (mset ys)"
  by (induction ys) auto

lemma mset_sort_cmp: "mset (sort_cmp cmp xs) = mset xs"
  by (induction xs) (simp_all add: sort_cmp_def mset_insort_cmp)

lemma set_sort_cmp: "set (sort_cmp cmp xs) = set xs"
  using mset_sort_cmp [of cmp xs] by (metis set_mset_mset)

lemma later_or_equal_trans:
  "later_or_equal a b \<Longrightarrow> later_or_equal b c \<Longrightarrow> later_or_equal a c"
  by (cases a; cases b; cases c) simp_all

lemma descending_insort:
  assumes "key x \<noteq> InvalidDate" and "list_all (\<lambda>y. key y \<noteq> InvalidDate) ys"
      and "descending (map key ys)"
  shows "descending (map key (insort_cmp (newest_first key) x ys))"
  using assms
proof (induction ys)
  case Nil
  then show ?case by simp
next
  case (Cons y ys)
  from Cons.prems obtain a b where ab: "key x = Date a" "key y = Date b"
    by (cases "key x"; cases "key y") simp_all
  show ?case
  proof (cases "a < b")
    case True
    then have pos: "positive (newest_first key x y)"
      using ab by (simp add: positive_newest_first)
    have "descending (map key (insort_cmp (newest_first key) x ys))"
      using Cons by simp
    moreover have "list_all (later_or_equal (key y)) (map key (insort_cmp (newest_first key) x ys))"
      using Cons.prems True ab by (auto simp add: list_all_iff set_insort_cmp)
    ultimately show ?thesis using pos by simp
  next
    case False
    then have npos: "\<not> positive (newest_first key x y)"
      using ab by (simp add: positive_newest_first)
    have xy: "later_or_equal (key x) (key y)" using False ab by simp
    have "list_all (later_or_equal (key x)) (map key ys)"
      using Cons.prems(3) xy by (auto simp add: list_all_iff intro: later_or_equal_trans)
    then show ?thesis using npos xy Cons.prems(3) by simp
  qed
qed

lemma descending_sort_cmp:
  assumes "list_all (\<lambda>y. key y \<noteq> InvalidDate) xs"
  shows "descending (map key (sort_cmp (newest_first key) xs))"
  using assms
proof (induction xs)
  case Nil
  then show ?case by (simp add: sort_cmp_def)
next
  case (Cons x xs)
  have v: "list_all (\<lambda>y. key y \<noteq> InvalidDate) (sort_cmp (newest_first key) xs)"
    using Cons.prems by (simp add: list_all_iff set_sort_cmp)
  have "descending (map key (insort_cmp (newest_first key) x (sort_cmp (newest_first key) xs)))"
    using Cons v by (intro descending_insort) simp_all
  then show ?case by (simp add: sort_cmp_def)
qed

lemma filter_insort_cmp:
  "filter (\<lambda>z. key z = d) (insort_cmp (newest_first key) x ys) =
     (if key x = d then x # filter (\<lambda>z. key z = d) ys else filter (\<lambda>z. key z = d) ys)"
  by (induction ys) (auto simp add: positive_newest_first)

lemma stable_sort_cmp:
  "filter (\<lambda>z. key z = d) (sort_cmp (newest_first key) xs) = filter (\<lambda>z. key z = d) xs"
  by (induction xs) (simp_all add: sort_cmp_def filter_insort_cmp)

section \<open>What a refresh touches\<close>

lemma toRecording_frame:
  fixes s :: "'a world_scheme"
  assumes "Recorder_toRecording d name s = (res, s1)"
  shows "s1 = s\<lparr>trace := trace s1, reads := reads s1\<rparr>"
  using assms
  by (auto simp add: Recorder_toRecording_def decode_fileName_def async_defs platform_defs
      split: option.splits res.splits prod.splits)

lemma toRecording_Ret:
  fixes s :: "'a world_scheme"
  assumes "Recorder_toRecording d name s = (Ret x, s1)"
  shows "fileName x = name \<and> uri x = d @ name"
  using assms
  by (auto simp add: Recorder_toRecording_def decode_fileName_def async_defs platform_defs
      split: option.splits res.splits prod.splits)

lemma each_frame:
  fixes s :: "'a world_scheme"
  assumes "each (Recorder_toRecording d) names s = (res, s1)"
  shows "s1 = s\<lparr>trace := trace s1, reads := reads s1\<rparr>"
  using assms
proof (induction names arbitrary: s res s1)
  case Nil
  then show ?case by (auto simp add: ret_def)
next
  case (Cons n ns)
  obtain r1 t1 where a: "Recorder_toRecording d n s = (r1, t1)" by force
  note f1 = toRecording_frame [OF a]
  show ?case
  proof (cases r1)
    case (Threw e)
    with Cons.prems a f1 show ?thesis by (simp add: await_def)
  next
    case (Ret y)
    obtain r2 t2 where b: "each (Recorder_toRecording d) ns t1 = (r2, t2)" by force
    note f2 = Cons.IH [OF b]
    from Cons.prems a Ret b have "s1 = t2"
      by (cases r2) (simp_all add: await_def ret_def)
    have "t2 = t1\<lparr>trace := trace t2, reads := reads t2\<rparr>" by (rule f2)
    also have "\<dots> = s\<lparr>trace := trace t2, reads := reads t2\<rparr>" by (subst f1) simp
    finally show ?thesis using \<open>s1 = t2\<close> by simp
  qed
qed


lemma each_Ret:
  fixes s :: "'a world_scheme"
  assumes "each (Recorder_toRecording d) names s = (Ret xs, s1)"
  shows "map fileName xs = names \<and> map uri xs = map ((@) d) names"
  using assms
proof (induction names arbitrary: s xs s1)
  case Nil
  then show ?case by (auto simp add: ret_def)
next
  case (Cons n ns)
  obtain r1 t1 where a: "Recorder_toRecording d n s = (r1, t1)" by force
  show ?case
  proof (cases r1)
    case (Threw e)
    with Cons.prems a show ?thesis by (simp add: await_def)
  next
    case (Ret y)
    obtain r2 t2 where b: "each (Recorder_toRecording d) ns t1 = (r2, t2)" by force
    show ?thesis
    proof (cases r2)
      case (Threw e)
      with Cons.prems a Ret b show ?thesis by (simp add: await_def)
    next
      case r2: (Ret ys)
      from Cons.prems a Ret b r2 have xs: "xs = y # ys" by (simp add: await_def ret_def)
      from toRecording_Ret a Ret have "fileName y = n \<and> uri y = d @ n" by blast
      moreover from Cons.IH b r2 have "map fileName ys = ns \<and> map uri ys = map ((@) d) ns" by blast
      ultimately show ?thesis using xs by simp
    qed
  qed
qed

lemma load_result:
  fixes s :: "'a recorder_scheme"
  defines "d \<equiv> documentDirectory s @ ''recordings/''"
  defines "s1 \<equiv> Recorder_loadRecordings s"
  shows "s1 = s\<lparr>trace := trace s1, reads := reads s1\<rparr>
       \<or> (map_of (fs s) d = None
            \<and> s1 = s\<lparr>trace := trace s1, fs := fs s @ [(d, 0)], recordings := []\<rparr>)
       \<or> (\<exists>xs. s1 = s\<lparr>trace := trace s1, reads := reads s1,
                           recordings := sort_cmp (newest_first createdAt) xs\<rparr>
             \<and> map fileName xs = filter (\<lambda>file. endsWith file ''.wav'') (children d (fs s))
             \<and> map uri xs = map ((@) d) (filter (\<lambda>file. endsWith file ''.wav'') (children d (fs s))))"
proof -
  let ?names = "filter (\<lambda>file. endsWith file ''.wav'') (children d (fs s))"
  let ?s2 = "s\<lparr>trace := trace s @ [Call (GetInfo d), Call (ReadDirectory d)]\<rparr>"
  obtain r1 s3 where e: "each (Recorder_toRecording d) ?names ?s2 = (r1, s3)" by force
  have fr: "s3 = s\<lparr>trace := trace s3, reads := reads s3\<rparr>"
    by (subst each_frame [OF e]) simp
  consider (info_fault) m where "faults s (GetInfo d) = Some m"
    | (mkdir_fault) m where "faults s (GetInfo d) = None" "map_of (fs s) d = None"
        "faults s (MakeDirectory d) = Some m"
    | (mkdir) "faults s (GetInfo d) = None" "map_of (fs s) d = None"
        "faults s (MakeDirectory d) = None"
    | (read_fault) n m where "faults s (GetInfo d) = None" "map_of (fs s) d = Some n"
        "faults s (ReadDirectory d) = Some m"
    | (each_threw) n m where "faults s (GetInfo d) = None" "map_of (fs s) d = Some n"
        "faults s (ReadDirectory d) = None" "r1 = Threw m"
    | (each_ret) n xs where "faults s (GetInfo d) = None" "map_of (fs s) d = Some n"
        "faults s (ReadDirectory d) = None" "r1 = Ret xs"
    by (cases "faults s (GetInfo d)"; cases "map_of (fs s) d"; cases "faults s (MakeDirectory d)";
        cases "faults s (ReadDirectory d)"; cases r1) auto
  then show ?thesis
  proof cases
    case info_fault
    then have "s1 = s\<lparr>trace := trace s1, reads := reads s1\<rparr>"
      unfolding s1_def d_def
      by (simp add: Recorder_loadRecordings_def async_defs platform_defs)
    then show ?thesis by simp
  next
    case mkdir_fault
    then have "s1 = s\<lparr>trace := trace s1, reads := reads s1\<rparr>"
      unfolding s1_def d_def
      by (simp add: Recorder_loadRecordings_def async_defs platform_defs)
    then show ?thesis by simp
  next
    case mkdir
    then have "s1 = s\<lparr>trace := trace s1, fs := fs s @ [(d, 0)], recordings := []\<rparr>"
      unfolding s1_def d_def
      by (simp add: Recorder_loadRecordings_def async_defs platform_defs)
    then show ?thesis using mkdir by simp
  next
    case read_fault
    then have "s1 = s\<lparr>trace := trace s1, reads := reads s1\<rparr>"
      unfolding s1_def d_def
      by (simp add: Recorder_loadRecordings_def async_defs platform_defs)
    then show ?thesis by simp
  next
    case each_threw
    then have "s1 = s3\<lparr>trace := trace s3 @ [Console Error ''Failed to load recordings:'']\<rparr>"
      using e unfolding s1_def d_def
      by (simp add: Recorder_loadRecordings_def async_defs platform_defs)
    then have "s1 = s\<lparr>trace := trace s1, reads := reads s1\<rparr>"
      by (subst (asm) fr) simp
    then show ?thesis by simp
  next
    case each_ret
    note er = each_Ret [OF e [unfolded each_ret(4)]]
    from each_ret have "s1 = s3\<lparr>trace := trace s3 @ [Console Log ''Found ${recordingFiles.length} recordings''],
         recordings := sort_cmp (newest_first createdAt) xs\<rparr>"
      using e unfolding s1_def d_def
      by (simp add: Recorder_loadRecordings_def async_defs platform_defs)
    then have "s1 = s\<lparr>trace := trace s1, reads := reads s1,
                           recordings := sort_cmp (newest_first createdAt) xs\<rparr>"
      by (subst (asm) fr) simp
    then show ?thesis using er by blast
  qed
qed


lemma load_fields:
  fixes s :: "'a recorder_scheme"
  defines "d \<equiv> documentDirectory s @ ''recordings/''"
  defines "s1 \<equiv> Recorder_loadRecordings s"
  shows "recording s1 = recording s \<and> isRecording s1 = isRecording s
       \<and> startTime s1 = startTime s \<and> permissionResponse s1 = permissionResponse s
       \<and> recordingDuration s1 = recordingDuration s \<and> faults s1 = faults s
       \<and> documentDirectory s1 = documentDirectory s \<and> loaded s1 = loaded s
       \<and> recorder.more s1 = recorder.more s
       \<and> (fs s1 = fs s \<or> map_of (fs s) d = None \<and> fs s1 = fs s @ [(d, 0)])
       \<and> (recordings s1 = recordings s
          \<or> map_of (fs s) d = None \<and> recordings s1 = []
          \<or> (\<exists>xs. recordings s1 = sort_cmp (newest_first createdAt) xs
                \<and> map fileName xs = filter (\<lambda>file. endsWith file ''.wav'') (children d (fs s))
                \<and> map uri xs =
                    map ((@) d) (filter (\<lambda>file. endsWith file ''.wav'') (children d (fs s)))))"
proof -
  have lr: "s1 = s\<lparr>trace := trace s1, reads := reads s1\<rparr>
       \<or> (map_of (fs s) d = None
            \<and> s1 = s\<lparr>trace := trace s1, fs := fs s @ [(d, 0)], recordings := []\<rparr>)
       \<or> (\<exists>xs. s1 = s\<lparr>trace := trace s1, reads := reads s1,
                           recordings := sort_cmp (newest_first createdAt) xs\<rparr>
             \<and> map fileName xs = filter (\<lambda>file. endsWith file ''.wav'') (children d (fs s))
             \<and> map uri xs = map ((@) d) (filter (\<lambda>file. endsWith file ''.wav'') (children d (fs s))))"
    unfolding s1_def d_def by (rule load_result)
  from lr show ?thesis
  proof (elim disjE conjE exE)
    assume a: "s1 = s\<lparr>trace := trace s1, reads := reads s1\<rparr>"
    note ac = arg_cong [OF a]
    show ?thesis
      using ac [of recording] ac [of isRecording] ac [of startTime] ac [of permissionResponse]
        ac [of recordingDuration] ac [of faults] ac [of documentDirectory] ac [of loaded]
        ac [of recorder.more] ac [of fs] ac [of recordings]
      by simp
  next
    assume b: "map_of (fs s) d = None"
          "s1 = s\<lparr>trace := trace s1, fs := fs s @ [(d, 0)], recordings := []\<rparr>"
    note ac = arg_cong [OF b(2)]
    show ?thesis
      using ac [of recording] ac [of isRecording] ac [of startTime] ac [of permissionResponse]
        ac [of recordingDuration] ac [of faults] ac [of documentDirectory] ac [of loaded]
        ac [of recorder.more] ac [of fs] ac [of recordings] b(1)
      by simp
  next
    fix xs
    assume c: "s1 = s\<lparr>trace := trace s1, reads := reads s1,
                           recordings := sort_cmp (newest_first createdAt) xs\<rparr>"
          "map fileName xs = filter (\<lambda>file. endsWith file ''.wav'') (children d (fs s))"
          "map uri xs = map ((@) d) (filter (\<lambda>file. endsWith file ''.wav'') (children d (fs s)))"
    note ac = arg_cong [OF c(1)]
    have "recordings s1 = sort_cmp (newest_first createdAt) xs"
      using ac [of recordings] by simp
    then have "\<exists>xs. recordings s1 = sort_cmp (newest_first createdAt) xs
                \<and> map fileName xs = filter (\<lambda>file. endsWith file ''.wav'') (children d (fs s))
                \<and> map uri xs =
                    map ((@) d) (filter (\<lambda>file. endsWith file ''.wav'') (children d (fs s)))"
      using c(2,3) by blast
    then show ?thesis
      using ac [of recording] ac [of isRecording] ac [of startTime] ac [of permissionResponse]
        ac [of recordingDuration] ac [of faults] ac [of documentDirectory] ac [of loaded]
        ac [of recorder.more] ac [of fs]
      by simp
  qed
qed

lemma toAudioFile_frame:
  fixes s :: "'a world_scheme"
  assumes "AudioService_toAudioFile name s = (res, s1)"
  shows "s1 = s\<lparr>trace := trace s1, reads := reads s1\<rparr>"
  using assms
  by (auto simp add: AudioService_toAudioFile_def async_defs platform_defs
      split: option.splits res.splits prod.splits if_splits)

lemma toAudioFile_Ret:
  fixes s :: "'a world_scheme"
  assumes "AudioService_toAudioFile name s = (Ret x, s1)"
  shows "filename x = name \<and> af_uri x = recordingsDirectory s @ name \<and> af_duration x = Num 0"
  using assms
  by (auto simp add: AudioService_toAudioFile_def async_defs platform_defs
      split: option.splits res.splits prod.splits if_splits)

lemma each_toAudioFile_frame:
  fixes s :: "'a world_scheme"
  assumes "each AudioService_toAudioFile names s = (res, s1)"
  shows "s1 = s\<lparr>trace := trace s1, reads := reads s1\<rparr>"
  using assms
proof (induction names arbitrary: s res s1)
  case Nil
  then show ?case by (auto simp add: ret_def)
next
  case (Cons n ns)
  obtain r1 t1 where a: "AudioService_toAudioFile n s = (r1, t1)" by force
  note f1 = toAudioFile_frame [OF a]
  show ?case
  proof (cases r1)
    case (Threw e)
    with Cons.prems a f1 show ?thesis by (simp add: await_def)
  next
    case (Ret y)
    obtain r2 t2 where b: "each AudioService_toAudioFile ns t1 = (r2, t2)" by force
    note f2 = Cons.IH [OF b]
    from Cons.prems a Ret b have "s1 = t2"
      by (cases r2) (simp_all add: await_def ret_def)
    have "t2 = t1\<lparr>trace := trace t2, reads := reads t2\<rparr>" by (rule f2)
    also have "\<dots> = s\<lparr>trace := trace t2, reads := reads t2\<rparr>" by (subst f1) simp
    finally show ?thesis using \<open>s1 = t2\<close> by simp
  qed
qed

lemma each_toAudioFile_Ret:
  fixes s :: "'a world_scheme"
  assumes "each AudioService_toAudioFile names s = (Ret xs, s1)"
  shows "map filename xs = names \<and> map af_uri xs = map ((@) (recordingsDirectory s)) names
       \<and> list_all (\<lambda>x. af_duration x = Num 0) xs"
  using assms
proof (induction names arbitrary: s xs s1)
  case Nil
  then show ?case by (auto simp add: ret_def)
next
  case (Cons n ns)
  obtain r1 t1 where a: "AudioService_toAudioFile n s = (r1, t1)" by force
  have dir: "recordingsDirectory t1 = recordingsDirectory s"
    by (subst toAudioFile_frame [OF a]) (simp add: recordingsDirectory_def)
  show ?case
  proof (cases r1)
    case (Threw e)
    with Cons.prems a show ?thesis by (simp add: await_def)
  next
    case (Ret y)
    obtain r2 t2 where b: "each AudioService_toAudioFile ns t1 = (r2, t2)" by force
    show ?thesis
    proof (cases r2)
      case (Threw e)
      with Cons.prems a Ret b show ?thesis by (simp add: await_def)
    next
      case r2: (Ret ys)
      from Cons.prems a Ret b r2 have xs: "xs = y # ys" by (simp add: await_def ret_def)
      from toAudioFile_Ret a Ret
      have "filename y = n \<and> af_uri y = recordingsDirectory s @ n \<and> af_duration y = Num 0"
        by blast
      moreover from Cons.IH b r2
      have "map filename ys = ns \<and> map af_uri ys = map ((@) (recordingsDirectory t1)) ns
           \<and> list_all (\<lambda>x. af_duration x = Num 0) ys" by blast
      ultimately show ?thesis using xs dir by simp
    qed
  qed
qed

lemma children_append_dir: "children d (entries @ [(d, n)]) = children d entries"
  by (simp add: children_def)

lemma init_result:
  fixes s :: "'a world_scheme"
  assumes "init s = (r, s1)"
  shows "s1 = s\<lparr>trace := trace s1, fs := fs s1\<rparr>
       \<and> (fs s1 = fs s \<or> fs s1 = fs s @ [(recordingsDirectory s, 0)])
       \<and> (r = Ret () \<longrightarrow> map_of (fs s1) (recordingsDirectory s) \<noteq> None)"
  using assms
  by (auto simp add: init_def recordingsDirectory_def async_defs platform_defs map_add_def
      split: option.splits if_splits)

lemma getRecordings_unfold:
  fixes s :: "'a service_scheme"
  assumes i: "init s = (r0, s2)"
      and e: "each AudioService_toAudioFile
                (filter (\<lambda>file. endsWith file ''.wav'') (children (recordingsDirectory s) (fs s)))
                (s2\<lparr>trace := trace s2 @ [Call (ReadDirectory (recordingsDirectory s))]\<rparr>)
              = (r1, s4)"
  shows "AudioService_getRecordings s =
      (case r0 of
         Threw m \<Rightarrow> ([], s2\<lparr>trace := trace s2 @ [Console Error ''Failed to get recordings:'']\<rparr>)
       | Ret u \<Rightarrow>
          (case faults s2 (ReadDirectory (recordingsDirectory s)) of
             Some m \<Rightarrow> ([], s2\<lparr>trace := trace s2 @ [Call (ReadDirectory (recordingsDirectory s)),
                             Console Error ''Failed to get recordings:'']\<rparr>)
           | None \<Rightarrow>
              if filter (\<lambda>file. endsWith file ''.wav'') (children (recordingsDirectory s) (fs s)) = []
              then ([], s2\<lparr>trace := trace s2 @ [Call (ReadDirectory (recordingsDirectory s))]\<rparr>)
              else (case r1 of
                      Threw m \<Rightarrow> ([], s4\<lparr>trace := trace s4 @
                                      [Console Error ''Failed to get recordings:'']\<rparr>)
                    | Ret xs \<Rightarrow> (sort_cmp (newest_first af_createdAt) xs, s4))))"
proof -
  note ir = init_result [OF i]
  have s2: "s2 = s\<lparr>trace := trace s2, fs := fs s2\<rparr>" using ir by blast
  have d2: "recordingsDirectory s2 = recordingsDirectory s"
    by (subst s2) (simp add: recordingsDirectory_def)
  have ch: "children (recordingsDirectory s) (fs s2) = children (recordingsDirectory s) (fs s)"
    using ir by (auto simp add: children_append_dir)
  have ex: "r0 = Ret () \<Longrightarrow> map_of (fs s2) (recordingsDirectory s) \<noteq> None"
    using ir by blast
  show ?thesis
  proof (cases r0)
    case (Threw m)
    then show ?thesis using i
      by (simp add: AudioService_getRecordings_def await_def try_catch_def console_def)
  next
    case (Ret u)
    then obtain n where n: "map_of (fs s2) (recordingsDirectory s) = Some n" using ex by auto
    show ?thesis
    proof (cases "faults s2 (ReadDirectory (recordingsDirectory s))")
      case (Some m)
      then show ?thesis using i Ret d2
        by (simp add: AudioService_getRecordings_def readDirectoryAsync_def async_defs)
    next
      case None
      then show ?thesis using i Ret d2 n ch e
        by (auto simp add: AudioService_getRecordings_def readDirectoryAsync_def async_defs
            split: res.splits)
    qed
  qed
qed


lemma getRecordings_result:
  fixes s :: "'a service_scheme"
  defines "s1 \<equiv> snd (AudioService_getRecordings s)"
  shows "(fs s1 = fs s \<or> fs s1 = fs s @ [(recordingsDirectory s, 0)])
       \<and> this_sound s1 = this_sound s \<and> this_recording s1 = this_recording s
       \<and> service.more s1 = service.more s \<and> faults s1 = faults s \<and> loaded s1 = loaded s
       \<and> documentDirectory s1 = documentDirectory s
       \<and> (fst (AudioService_getRecordings s) = []
          \<or> (\<exists>xs. fst (AudioService_getRecordings s) = sort_cmp (newest_first af_createdAt) xs
                \<and> map filename xs =
                    filter (\<lambda>file. endsWith file ''.wav'') (children (recordingsDirectory s) (fs s))
                \<and> map af_uri xs = map ((@) (recordingsDirectory s))
                    (filter (\<lambda>file. endsWith file ''.wav'') (children (recordingsDirectory s) (fs s)))
                \<and> list_all (\<lambda>x. af_duration x = Num 0) xs))"
proof -
  let ?d = "recordingsDirectory s"
  let ?names = "filter (\<lambda>file. endsWith file ''.wav'') (children ?d (fs s))"
  obtain r0 s2 where i: "init s = (r0, s2)" by force
  obtain r1 s4 where e: "each AudioService_toAudioFile ?names
      (s2\<lparr>trace := trace s2 @ [Call (ReadDirectory ?d)]\<rparr>) = (r1, s4)" by force
  note ir = init_result [OF i]
  note unf = getRecordings_unfold [OF i e]
  obtain t2 f2 where s2: "s2 = s\<lparr>trace := t2, fs := f2\<rparr>"
    and f2: "f2 = fs s \<or> f2 = fs s @ [(?d, 0)]"
    using ir by metis
  obtain t4 k4 where s4: "s4 = s\<lparr>fs := f2, trace := t4, reads := k4\<rparr>"
  proof -
    have "s4 = s2\<lparr>trace := trace s4, reads := reads s4\<rparr>"
      by (subst each_toAudioFile_frame [OF e]) simp
    then have "s4 = s\<lparr>fs := f2, trace := trace s4, reads := reads s4\<rparr>"
      unfolding s2 by simp
    then show ?thesis using that by blast
  qed
  have d2: "recordingsDirectory s2 = ?d"
    unfolding s2 by (simp add: recordingsDirectory_def)
  have st: "(fs s1 = fs s \<or> fs s1 = fs s @ [(recordingsDirectory s, 0)])
       \<and> this_sound s1 = this_sound s \<and> this_recording s1 = this_recording s
       \<and> service.more s1 = service.more s \<and> faults s1 = faults s \<and> loaded s1 = loaded s
       \<and> documentDirectory s1 = documentDirectory s"
    using f2 unfolding s1_def unf s2 s4 by (auto split: res.splits option.splits if_splits)
  have res: "fst (AudioService_getRecordings s) = []
          \<or> (\<exists>xs. r1 = Ret xs \<and> fst (AudioService_getRecordings s) = sort_cmp (newest_first af_createdAt) xs)"
    unfolding unf by (auto split: res.splits option.splits if_splits)
  have "fst (AudioService_getRecordings s) = []
          \<or> (\<exists>xs. fst (AudioService_getRecordings s) = sort_cmp (newest_first af_createdAt) xs
                \<and> map filename xs = ?names
                \<and> map af_uri xs = map ((@) ?d) ?names
                \<and> list_all (\<lambda>x. af_duration x = Num 0) xs)"
  proof -
    from res show ?thesis
    proof
      assume "fst (AudioService_getRecordings s) = []"
      then show ?thesis by simp
    next
      assume "\<exists>xs. r1 = Ret xs \<and> fst (AudioService_getRecordings s) = sort_cmp (newest_first af_createdAt) xs"
      then obtain xs where xs: "r1 = Ret xs"
        "fst (AudioService_getRecordings s) = sort_cmp (newest_first af_createdAt) xs" by blast
      note er = each_toAudioFile_Ret [OF e [unfolded xs(1)]]
      have "recordingsDirectory (s2\<lparr>trace := trace s2 @ [Call (ReadDirectory ?d)]\<rparr>) = ?d"
        using d2 by (simp add: recordingsDirectory_def)
      with er xs(2) show ?thesis by auto
    qed
  qed
  with st show ?thesis by blast
qed

section \<open>The example directories, evaluated\<close>

lemma ex_children: "children ''doc/recordings/'' example_directory = [''a_5.wav'', ''x_y.wav'', ''b_9.wav'']"
  by (simp add: children_def example_directory_def)

lemma p1: "parse_fileName ''a_5.wav'' = Ret (''a'', Num 5, Num 0)"
  by (simp add: parse_fileName_def number_defs)
lemma p2: "parse_fileName ''x_y.wav'' = Ret (''x'', NaN, Num 0)"
  by (simp add: parse_fileName_def number_defs)
lemma p3: "parse_fileName ''b_9.wav'' = Ret (''b'', Num 9, Num 0)"
  by (simp add: parse_fileName_def number_defs)

lemma ex_dir: "map_of example_directory ''doc/recordings/'' = Some 0"
  by (simp add: example_directory_def)

lemma ex_wav: "filter (\<lambda>file. endsWith file ''.wav'') [''a_5.wav'', ''x_y.wav'', ''b_9.wav'']
    = [''a_5.wav'', ''x_y.wav'', ''b_9.wav'']"
  by (simp add: endsWith_def)

lemma valid_children:
  "children ''doc/recordings/'' valid_directory = [''a_5.wav'', ''b_9.wav'', ''c_5.wav'']"
  by (simp add: children_def valid_directory_def)

lemma valid_dir: "map_of valid_directory ''doc/recordings/'' = Some 0"
  by (simp add: valid_directory_def)

lemma p4: "parse_fileName ''c_5.wav'' = Ret (''c'', Num 5, Num 0)"
  by (simp add: parse_fileName_def number_defs)

lemma valid_load:
  "recordings (Recorder_loadRecordings (example_recorder valid_directory None (Some True))) =
     [\<lparr>clip_id = ''b'', uri = ''doc/recordings/b_9.wav'', fileName = ''b_9.wav'',
       duration = Num 0, createdAt = Date 9\<rparr>,
      \<lparr>clip_id = ''a'', uri = ''doc/recordings/a_5.wav'', fileName = ''a_5.wav'',
       duration = Num 0, createdAt = Date 5\<rparr>,
      \<lparr>clip_id = ''c'', uri = ''doc/recordings/c_5.wav'', fileName = ''c_5.wav'',
       duration = Num 0, createdAt = Date 5\<rparr>]"
  by (simp add: Recorder_loadRecordings_def example_recorder_def valid_children valid_dir endsWith_def
      Recorder_toRecording_def decode_fileName_def p1 p3 p4 new_Date_def sort_cmp_def newest_first_def
      async_defs platform_defs)

lemma q: "parseInt ''5'' = Num 5" "parseInt ''9'' = Num 9"
  by (simp_all add: parseInt_def is_ws_def is_digit_in_def digit_of_def digit_table_def val_in_def)

lemma valid_get:
  "fst (AudioService_getRecordings (example_service valid_directory None None)) =
     [\<lparr>af_id = ''9'', af_uri = ''doc/recordings/b_9.wav'', filename = ''b_9.wav'',
       af_duration = Num 0, af_createdAt = Date 9\<rparr>,
      \<lparr>af_id = ''5'', af_uri = ''doc/recordings/a_5.wav'', filename = ''a_5.wav'',
       af_duration = Num 0, af_createdAt = Date 5\<rparr>,
      \<lparr>af_id = ''5'', af_uri = ''doc/recordings/c_5.wav'', filename = ''c_5.wav'',
       af_duration = Num 0, af_createdAt = Date 5\<rparr>]"
  by (simp add: AudioService_getRecordings_def example_service_def valid_children valid_dir
      endsWith_def init_def recordingsDirectory_def
      AudioService_toAudioFile_def q new_Date_def sort_cmp_def newest_first_def
      async_defs platform_defs)



section \<open>Decoding file names\<close>
















section \<open>Deleting\<close>













section \<open>Stopping a recording\<close>












section \<open>C1: round trip of the file name codec\<close>

text \<open>
  Claim C1: decoding the name encoded from \<open>(id, t, d)\<close> gives back \<open>id\<close>, \<open>t\<close> and \<open>d\<close>.
  On the code the duration does not come back. For \<open>id = "17"\<close>, \<open>t = 17\<close>, \<open>d = 2500\<close>
  the name is \<open>17_17_2500.wav\<close>; the \<open>try\<close> block of \<open>loadRecordings\<close> does not throw on
  it and yields the id \<open>"17"\<close> and the timestamp \<open>17\<close>, but the duration \<open>NaN\<close>: the
  extension is stripped from the second part only, and the third part, \<open>2500.wav\<close>, is
  not a numeric literal.
\<close>

theorem roundtrip_loses_duration:
  "encode_fileName ''17'' 17 2500 = ''17_17_2500.wav''
   \<and> parse_fileName ''17_17_2500.wav'' = Ret (''17'', Num 17, NaN)"
proof -
  have r: "Math_round 2500 = 2500"
    using Math_round_of_int [of 2500] by simp
  have e: "encode_fileName ''17'' 17 2500 = ''17_17_2500.wav''"
    by (simp add: encode_fileName_def r toString_int_def toString_nat.simps digit_char_def)
  have t: "Number ''17'' = Num 17"
    by (simp add: number_defs)
  have d: "Number ''2500.wav'' = NaN"
    by (simp add: number_defs)
  have p: "parse_fileName ''17_17_2500.wav'' = Ret (''17'', Num 17, NaN)"
    by (simp add: parse_fileName_def t d)
  show ?thesis using e p by simp
qed


section \<open>C2: what a successful stop persists and returns\<close>




section \<open>C3: names that cannot be parsed\<close>




section \<open>C4: stopping when the temporary capture is missing or empty\<close>

text \<open>
  Claim C4: when the temporary capture file is missing or empty, the stop aborts, no clip
  is registered, an error is surfaced, and no recording handle remains. The hook's
  \<open>stopRecording\<close> returns right after logging the error, without \<open>setRecording(null)\<close>:
  with a recording whose file \<open>tmp/rec.wav\<close> does not exist, the handle is still held
  afterwards (while \<open>isRecording\<close> is cleared and no clip is registered). The service,
  on the same input, has dropped its handle.
\<close>

theorem hook_stop_missing_file_keeps_handle:
  "recording (Recorder_stopRecording (example_recorder [] (Some example_handle) (Some True)))
     = Some example_handle
   \<and> isRecording (Recorder_stopRecording (example_recorder [] (Some example_handle) (Some True)))
     = False
   \<and> recordings (Recorder_stopRecording (example_recorder [] (Some example_handle) (Some True)))
     = []
   \<and> trace (Recorder_stopRecording (example_recorder [] (Some example_handle) (Some True)))
     = [Console Log ''Stopping recording...'', Call StopAndUnload,
        Console Log ''Recording stopped, URI: ${uri}'', Call (GetInfo ''tmp/rec.wav''),
        Console Error ''Recording file is missing or empty:'']
   \<and> this_recording (snd (AudioService_stopRecording
          (example_service [] (Some example_handle) None))) = None"
  by (simp add: example_recorder_def example_service_def example_handle_def
      Recorder_stopRecording_def AudioService_stopRecording_def async_defs platform_defs)

section \<open>C5: starting without permission\<close>



section \<open>C6: playing a clip whose file is missing or empty\<close>

text \<open>
  Claim C6: playing a clip whose file does not exist, or is empty, surfaces an error,
  leaves the playing id null and attempts no native load. The service's \<open>playRecording\<close>
  only checks that the file exists: on an existing file of size 0 it goes on to create
  and play the sound.
\<close>

theorem service_plays_empty_file_counterexample:
  "map_of (fs (example_service [(''doc/recordings/recording_5.wav'', 0)] None None))
       ''doc/recordings/recording_5.wav'' = Some 0
   \<and> AudioService_playRecording ''doc/recordings/recording_5.wav''
       (example_service [(''doc/recordings/recording_5.wav'', 0)] None None) =
     (True, (example_service [(''doc/recordings/recording_5.wav'', 0)] None None)
        \<lparr>trace := [Call (GetInfo ''doc/recordings/recording_5.wav''), Call SetAudioMode,
                    Call (CreateSound ''doc/recordings/recording_5.wav''), Call (PlaySound 1)],
         next_sound := 2, loaded := [1], this_sound := Some 1\<rparr>)"
  by (simp add: example_service_def AudioService_playRecording_def async_defs platform_defs)

lemma playRecording_missing:
  fixes s :: "'b service_scheme"
  assumes "map_of (fs s) u = None"
  shows "fst (AudioService_playRecording u s) = False
       \<and> Call (CreateSound u) \<notin> set (new_events s (snd (AudioService_playRecording u s)))
       \<and> (\<exists>msg. last (trace (snd (AudioService_playRecording u s))) = Console Error msg)"
  using assms
  by (simp add: AudioService_playRecording_def new_events_def async_defs platform_defs
      split: option.splits)

text \<open>
  Claim C6 as amended. The hook's \<open>playSound\<close>, on a file that does not exist or has
  size 0 (the file check itself not throwing): the error message is set, nothing else of
  the player changes (the playing id and the held sound stay as they were), and the only
  platform call is the file check. The service's \<open>playRecording\<close>, on a file that does
  not exist: it returns \<open>false\<close>, its last output is an error on the console, and it
  never calls the native load; the screen's play handler, with no clip playing, then
  leaves its playing id null.
\<close>

theorem play_missing_file:
  fixes p :: "'a player_scheme" and s :: "'b service_scheme" and sc :: "'c screen_scheme"
  assumes "map_of (fs p) (uri r) = None \<or> map_of (fs p) (uri r) = Some 0"
      and "faults p (GetInfo (uri r)) = None"
      and "map_of (fs s) u = None"
      and "map_of (fs sc) (af_uri item) = None" and "scr_playingId sc = None"
  shows "Player_playSound r p =
           (Ret (), p\<lparr>trace := trace p @ [Call (GetInfo (uri r))],
                       error := Some (''File doesn't exist or is empty: '' @ uri r)\<rparr>)
       \<and> fst (AudioService_playRecording u s) = False
       \<and> Call (CreateSound u) \<notin> set (new_events s (snd (AudioService_playRecording u s)))
       \<and> (\<exists>msg. last (trace (snd (AudioService_playRecording u s))) = Console Error msg)
       \<and> scr_playingId (Screen_handlePlayPause item sc) = None
       \<and> Call (CreateSound (af_uri item)) \<notin> set (new_events sc (Screen_handlePlayPause item sc))"
proof -
  have hook: "Player_playSound r p =
           (Ret (), p\<lparr>trace := trace p @ [Call (GetInfo (uri r))],
                       error := Some (''File doesn't exist or is empty: '' @ uri r)\<rparr>)"
    using assms(1,2)
    by (auto simp add: Player_playSound_def async_defs platform_defs)
  have scr: "scr_playingId (Screen_handlePlayPause item sc) = None
       \<and> Call (CreateSound (af_uri item)) \<notin> set (new_events sc (Screen_handlePlayPause item sc))"
    using assms(4,5)
    by (simp add: Screen_handlePlayPause_def AudioService_playRecording_def new_events_def
        async_defs platform_defs split: option.splits)
  show ?thesis using hook scr playRecording_missing [OF assms(3)] by simp
qed

theorem play_missing_file_witness:
  "Player_playSound \<lparr>clip_id = ''5'', uri = ''doc/recordings/gone.wav'', fileName = ''gone.wav'',
        duration = Num 0, createdAt = Date 5\<rparr> (example_player [] None) =
     (Ret (), (example_player [] None)\<lparr>trace := [Call (GetInfo ''doc/recordings/gone.wav'')],
        error := Some ''File doesn't exist or is empty: doc/recordings/gone.wav''\<rparr>)
   \<and> AudioService_playRecording ''doc/recordings/gone.wav'' (example_service [] None None) =
     (False, (example_service [] None None)\<lparr>trace := [Call (GetInfo ''doc/recordings/gone.wav''),
        Console Error ''Audio file not found:'']\<rparr>)
   \<and> scr_playingId (Screen_handlePlayPause
         \<lparr>af_id = ''5'', af_uri = ''doc/recordings/gone.wav'', filename = ''gone.wav'',
          af_duration = Num 0, af_createdAt = Date 5\<rparr> (example_screen [] None [] None)) = None"
  using play_missing_file [of "example_player [] None"
      "\<lparr>clip_id = ''5'', uri = ''doc/recordings/gone.wav'', fileName = ''gone.wav'',
        duration = Num 0, createdAt = Date 5\<rparr>"
      "example_service [] None None" "''doc/recordings/gone.wav''"
      "example_screen [] None [] None"
      "\<lparr>af_id = ''5'', af_uri = ''doc/recordings/gone.wav'', filename = ''gone.wav'',
        af_duration = Num 0, af_createdAt = Date 5\<rparr>"]
  by (simp add: example_player_def example_service_def example_screen_def
      AudioService_playRecording_def async_defs platform_defs)

section \<open>C7: stopping playback\<close>

text \<open>
  Claim C7: the player's stop releases the native sound handle, resets the position to
  0 and clears the playing id. The hook's \<open>stopSound\<close> stops the sound but neither
  unloads it nor lets go of it: after stopping sound 0, the hook still holds it and it is
  still loaded.
\<close>

theorem hook_stop_keeps_sound_counterexample:
  "sound (Player_stopSound (example_player [] (Some 0))) = Some 0
   \<and> loaded (Player_stopSound (example_player [] (Some 0))) = [0]"
  by (simp add: Player_stopSound_def example_player_def async_defs platform_defs)

text \<open>
  Claim C7 as amended. While a sound is held and the native calls do not throw: the
  hook's \<open>stopSound\<close> stops the sound, resets the position to 0, clears the playing id
  and the playing flag, and keeps the sound loaded and held; the service's
  \<open>stopPlayback\<close> stops the sound, unloads it and drops the handle (the service keeps no
  position or playing id).
\<close>

theorem stop_playback_effects:
  fixes p :: "'a player_scheme" and s :: "'b service_scheme"
  assumes "sound p = Some h" and "faults p (StopSound h) = None"
      and "this_sound s = Some k" and "faults s (StopSound k) = None"
      and "faults s (UnloadSound k) = None"
  shows "Player_stopSound p =
           p\<lparr>trace := trace p @ [Call (StopSound h)],
              isPlaying := False, playingId := None, position := Num 0\<rparr>
       \<and> AudioService_stopPlayback s =
           s\<lparr>trace := trace s @ [Call (StopSound k), Call (UnloadSound k)],
              loaded := removeAll k (loaded s), this_sound := None\<rparr>"
  using assms
  by (simp add: Player_stopSound_def AudioService_stopPlayback_def async_defs platform_defs)

theorem stop_playback_effects_witness:
  "Player_stopSound (example_player [] (Some 0)) =
     (example_player [] (Some 0))\<lparr>trace := [Call (StopSound 0)],
        isPlaying := False, playingId := None, position := Num 0\<rparr>
   \<and> AudioService_stopPlayback (example_service [] None (Some 0)) =
     (example_service [] None (Some 0))\<lparr>trace := [Call (StopSound 0), Call (UnloadSound 0)],
        loaded := [], this_sound := None\<rparr>"
  using stop_playback_effects
    [of "example_player [] (Some 0)" 0 "example_service [] None (Some 0)" 0]
  by (simp add: example_player_def example_service_def)

section \<open>C8: deleting a clip\<close>



section \<open>C9: the registry is ordered by recency\<close>

text \<open>
  Claim C9: after every refresh the clip list is sorted by \<open>createdAt\<close>, most recent
  first, and clips with equal timestamps keep a stable order. A name such as \<open>x_y.wav\<close>
  decodes to an invalid date, for which the comparison function gives \<open>NaN\<close> against
  every other clip: the hook's refresh of a directory holding \<open>a_5.wav\<close>, \<open>x_y.wav\<close> and
  \<open>b_9.wav\<close> (in this order) leaves them in this order, the clip of time 5 before the clip
  of time 9.
\<close>

theorem refresh_with_invalid_date_counterexample:
  "map createdAt (recordings (Recorder_loadRecordings (example_recorder example_directory None (Some True))))
     = [Date 5, InvalidDate, Date 9]
   \<and> \<not> descending [Date 5, InvalidDate, Date 9]"
  by (simp add: Recorder_loadRecordings_def example_recorder_def ex_children ex_dir endsWith_def
      Recorder_toRecording_def decode_fileName_def p1 p2 p3 new_Date_def sort_cmp_def newest_first_def
      async_defs platform_defs)

text \<open>
  Claim C9 as amended: for every refresh whose resulting clips all have a valid
  \<open>createdAt\<close>, the list is sorted by \<open>createdAt\<close>, most recent first, and the clips of any
  one timestamp stand in the order in which the directory listing gave their files. This
  holds for the list the service's \<open>getRecordings\<close> returns and for the list the hook's
  \<open>loadRecordings\<close> stores (when it fails, it stores nothing and the list is the one
  before).
\<close>

theorem refresh_sorted_newest_first:
  fixes s :: "'a service_scheme" and r :: "'b recorder_scheme"
  assumes "list_all (\<lambda>f. af_createdAt f \<noteq> InvalidDate) (fst (AudioService_getRecordings s))"
      and "list_all (\<lambda>c. createdAt c \<noteq> InvalidDate) (recordings (Recorder_loadRecordings r))"
  shows "descending (map af_createdAt (fst (AudioService_getRecordings s)))
       \<and> (\<forall>d. subseq (map filename (filter (\<lambda>f. af_createdAt f = d)
                                        (fst (AudioService_getRecordings s))))
                     (filter (\<lambda>file. endsWith file ''.wav'')
                        (children (recordingsDirectory s) (fs s))))
       \<and> (recordings (Recorder_loadRecordings r) = recordings r
          \<or> descending (map createdAt (recordings (Recorder_loadRecordings r)))
            \<and> (\<forall>d. subseq (map fileName (filter (\<lambda>c. createdAt c = d)
                                             (recordings (Recorder_loadRecordings r))))
                          (filter (\<lambda>file. endsWith file ''.wav'')
                             (children (documentDirectory r @ ''recordings/'') (fs r)))))"
proof -
  let ?R = "fst (AudioService_getRecordings s)"
  let ?names = "filter (\<lambda>file. endsWith file ''.wav'') (children (recordingsDirectory s) (fs s))"
  have svc: "descending (map af_createdAt ?R)
       \<and> (\<forall>d. subseq (map filename (filter (\<lambda>f. af_createdAt f = d) ?R)) ?names)"
  proof (cases "?R = []")
    case True
    then show ?thesis by simp
  next
    case False
    then obtain xs where xs: "?R = sort_cmp (newest_first af_createdAt) xs"
      "map filename xs = ?names"
      using getRecordings_result [of s] by blast
    have v: "list_all (\<lambda>f. af_createdAt f \<noteq> InvalidDate) xs"
      using assms(1) unfolding xs(1) by (simp add: list_all_iff set_sort_cmp)
    have "descending (map af_createdAt ?R)"
      unfolding xs(1) by (rule descending_sort_cmp [OF v])
    moreover have "subseq (map filename (filter (\<lambda>f. af_createdAt f = d) ?R)) ?names" for d
    proof -
      have "subseq (map filename (filter (\<lambda>f. af_createdAt f = d) xs)) (map filename xs)"
        by (intro subseq_map subseq_filter_left)
      then show ?thesis unfolding xs(1) stable_sort_cmp xs(2) .
    qed
    ultimately show ?thesis by blast
  qed
  let ?L = "recordings (Recorder_loadRecordings r)"
  let ?lnames = "filter (\<lambda>file. endsWith file ''.wav'')
                   (children (documentDirectory r @ ''recordings/'') (fs r))"
  have hook: "?L = recordings r
          \<or> descending (map createdAt ?L)
            \<and> (\<forall>d. subseq (map fileName (filter (\<lambda>c. createdAt c = d) ?L)) ?lnames)"
  proof -
    from load_fields [of r]
    have "?L = recordings r \<or> ?L = []
        \<or> (\<exists>xs. ?L = sort_cmp (newest_first createdAt) xs \<and> map fileName xs = ?lnames)"
      by blast
    then show ?thesis
    proof (elim disjE exE conjE)
      assume "?L = recordings r"
      then show ?thesis by simp
    next
      assume "?L = []"
      then show ?thesis by simp
    next
      fix xs
      assume xs: "?L = sort_cmp (newest_first createdAt) xs" "map fileName xs = ?lnames"
      have v: "list_all (\<lambda>c. createdAt c \<noteq> InvalidDate) xs"
        using assms(2) unfolding xs(1) by (simp add: list_all_iff set_sort_cmp)
      have "descending (map createdAt ?L)"
        unfolding xs(1) by (rule descending_sort_cmp [OF v])
      moreover have "subseq (map fileName (filter (\<lambda>c. createdAt c = d) ?L)) ?lnames" for d
      proof -
        have "subseq (map fileName (filter (\<lambda>c. createdAt c = d) xs)) (map fileName xs)"
          by (intro subseq_map subseq_filter_left)
        then show ?thesis unfolding xs(1) stable_sort_cmp xs(2) .
      qed
      ultimately show ?thesis by blast
    qed
  qed
  show ?thesis using svc hook by blast
qed

theorem refresh_sorted_newest_first_witness:
  "map filename (fst (AudioService_getRecordings (example_service valid_directory None None)))
     = [''b_9.wav'', ''a_5.wav'', ''c_5.wav'']
   \<and> descending (map af_createdAt
         (fst (AudioService_getRecordings (example_service valid_directory None None))))
   \<and> map fileName (recordings (Recorder_loadRecordings
         (example_recorder valid_directory None (Some True))))
     = [''b_9.wav'', ''a_5.wav'', ''c_5.wav'']
   \<and> descending (map createdAt (recordings (Recorder_loadRecordings
         (example_recorder valid_directory None (Some True)))))"
  using refresh_sorted_newest_first
    [of "example_service valid_directory None None"
        "example_recorder valid_directory None (Some True)"]
  by (simp add: valid_get valid_load)

section \<open>C10: stopping when nothing is being recorded\<close>

text \<open>
  Claim C10: stopping while no recording is held returns at once with no result: no
  platform call is made (the trace, the file system and every other part of the world
  are untouched) and no recorder or registry state changes. This holds for the
  service's \<open>stopRecording\<close>, which returns \<open>null\<close>, and for the hook's.
\<close>

theorem stop_from_idle_is_noop:
  fixes s :: "'a service_scheme" and r :: "'b recorder_scheme"
  assumes "this_recording s = None" and "recording r = None"
  shows "AudioService_stopRecording s = (None, s) \<and> Recorder_stopRecording r = r"
  using assms
  by (simp add: AudioService_stopRecording_def Recorder_stopRecording_def async_defs)

theorem stop_from_idle_is_noop_witness:
  "AudioService_stopRecording (example_service [] None None) = (None, example_service [] None None)
   \<and> Recorder_stopRecording (example_recorder [] None (Some True)) =
       example_recorder [] None (Some True)"
  using stop_from_idle_is_noop
    [of "example_service [] None None" "example_recorder [] None (Some True)"]
  by (simp add: example_service_def example_recorder_def)

end
